theory Spec2Isabelle
  imports Main
begin

section \<open>Strings of the chat view\<close>

text \<open>
  A JavaScript string is a sequence of UTF-16 code units; a code unit is modelled by its
  number. \<open>lit\<close> embeds an ASCII literal of the source.
\<close>

type_synonym jstring = "nat list"

definition lit :: "string \<Rightarrow> jstring" where
  "lit cs = map of_char cs"

text \<open>
  The code units that \<open>String.prototype.trim\<close> strips: the WhiteSpace and
  LineTerminator productions of ECMAScript (all of them in the basic plane).
\<close>

definition isWhiteSpace :: "nat \<Rightarrow> bool" where
  "isWhiteSpace u \<longleftrightarrow>
     u = 0x9 \<or> u = 0xA \<or> u = 0xB \<or> u = 0xC \<or> u = 0xD \<or> u = 0x20 \<or> u = 0xA0 \<or>
     u = 0x1680 \<or> (0x2000 \<le> u \<and> u \<le> 0x200A) \<or> u = 0x2028 \<or> u = 0x2029 \<or>
     u = 0x202F \<or> u = 0x205F \<or> u = 0x3000 \<or> u = 0xFEFF"

definition trim :: "jstring \<Rightarrow> jstring" where
  "trim s = rev (dropWhile isWhiteSpace (rev (dropWhile isWhiteSpace s)))"

text \<open>Truthiness of a string value: the empty string is falsy.\<close>

definition truthy :: "jstring \<Rightarrow> bool" where
  "truthy s \<longleftrightarrow> s \<noteq> []"

text \<open>
  Truthiness of the optional string field \<open>session_id?: string\<close>: \<open>undefined\<close> and the
  empty string are falsy.
\<close>

definition truthy_opt :: "jstring option \<Rightarrow> bool" where
  "truthy_opt v \<longleftrightarrow> (case v of None \<Rightarrow> False | Some s \<Rightarrow> truthy s)"

text \<open>A \<open>string | null\<close> value interpolated into a template literal.\<close>

definition interpolate :: "jstring option \<Rightarrow> jstring" where
  "interpolate v = (case v of None \<Rightarrow> lit ''null'' | Some s \<Rightarrow> s)"

section \<open>Data model (types/index.ts and the state of Chat.tsx)\<close>

datatype mode = Session | Stateless

datatype role = User | Assistant

record message =
  role :: role
  content :: jstring
  isMarkdown :: bool

text \<open>
  The \<open>useState\<close> cells of the \<open>Chat\<close> component that the conversation uses
  (\<open>user\<close> is only displayed).
\<close>

record chat_state =
  sessionId :: "jstring option"
  currentMode :: mode
  messages :: "message list"
  inputMessage :: jstring
  isLoading :: bool

definition initial_state :: chat_state where
  "initial_state =
     \<lparr>sessionId = None, currentMode = Session, messages = [], inputMessage = [],
      isLoading = False\<rparr>"

section \<open>The remote service as seen by services/api.ts\<close>

text \<open>
  A value thrown inside an async function: an \<open>Error\<close> instance with its message, or
  anything else.
\<close>

datatype thrown = Error jstring | NonError

text \<open>
  The \<open>detail\<close> field of an error body, as far as \<open>error.detail || ...\<close> and \<open>new Error\<close>
  look at it. \<open>Undefined\<close>: the body has no such field. \<open>Text m\<close>: the string \<open>m\<close>.
  \<open>Other t m\<close>: a value that is not a string (null, a number, an array, an object), with
  its truthiness \<open>t\<close> and the text \<open>m\<close> that \<open>new Error\<close> makes of it; an empty array is truthy
  and its text is empty.
\<close>

datatype js_value = Undefined | Text jstring | Other bool jstring

text \<open>
  What \<open>fetch\<close> and the reading of the body can do. \<open>NetworkFailure m\<close>: \<open>fetch\<close>
  rejects with an \<open>Error\<close> of message \<open>m\<close>. \<open>NotOk b\<close>: a response whose \<open>ok\<close> is false;
  \<open>b\<close> is \<open>Inl m\<close> when reading \<open>(await response.json()).detail\<close> throws an \<open>Error\<close> of
  message \<open>m\<close>, and \<open>Inr d\<close> with the \<open>detail\<close> field otherwise. \<open>Ok b\<close>: a response
  whose \<open>ok\<close> is true; \<open>b\<close> is \<open>Inl m\<close> when \<open>response.json()\<close> rejects, and \<open>Inr v\<close>
  with the parsed body otherwise.
\<close>

datatype 'a http_reply =
    NetworkFailure jstring
  | NotOk "jstring + js_value"
  | Ok "jstring + 'a"

record send_response =
  response :: jstring
  session_id :: "jstring option"

record request =
  endpoint :: jstring
  body_message :: "jstring option"

text \<open>\<open>chatApi.createSession\<close>: the request it posts and how it settles.\<close>

definition createSession_request :: request where
  "createSession_request = \<lparr>endpoint = lit ''/chat/session'', body_message = None\<rparr>"

definition createSession :: "jstring http_reply \<Rightarrow> thrown + jstring" where
  "createSession reply =
     (case reply of
        NetworkFailure m \<Rightarrow> Inl (Error m)
      | NotOk _ \<Rightarrow> Inl (Error (lit ''Failed to create session''))
      | Ok (Inl m) \<Rightarrow> Inl (Error m)
      | Ok (Inr sid) \<Rightarrow> Inr sid)"

text \<open>\<open>chatApi.sendMessage\<close>: the request it posts and how it settles.\<close>

definition sendMessage_request :: "jstring option \<Rightarrow> jstring \<Rightarrow> mode \<Rightarrow> request" where
  "sendMessage_request sid msg md =
     \<lparr>endpoint = (if md = Session then lit ''/chat/session/'' @ interpolate sid
                  else lit ''/chat/stateless''),
      body_message = Some msg\<rparr>"

definition sendMessage :: "send_response http_reply \<Rightarrow> thrown + send_response" where
  "sendMessage reply =
     (case reply of
        NetworkFailure m \<Rightarrow> Inl (Error m)
      | NotOk (Inl m) \<Rightarrow> Inl (Error m)
      | NotOk (Inr d) \<Rightarrow>
          Inl (Error (case d of
                        Undefined \<Rightarrow> lit ''Failed to send message''
                      | Text m \<Rightarrow> if truthy m then m else lit ''Failed to send message''
                      | Other t m \<Rightarrow> if t then m else lit ''Failed to send message''))
      | Ok (Inl m) \<Rightarrow> Inl (Error m)
      | Ok (Inr r) \<Rightarrow> Inr r)"

section \<open>The handlers of Chat.tsx\<close>

definition addMessage :: "role \<Rightarrow> jstring \<Rightarrow> bool \<Rightarrow> chat_state \<Rightarrow> chat_state" where
  "addMessage r c md s =
     s\<lparr>messages := messages s @ [\<lparr>role = r, content = c, isMarkdown = md\<rparr>]\<rparr>"

text \<open>The cross mark U+274C that starts every error entry.\<close>

definition cross_mark :: jstring where
  "cross_mark = [0x274C]"

definition showError :: "jstring \<Rightarrow> chat_state \<Rightarrow> chat_state" where
  "showError m s = addMessage Assistant (cross_mark @ lit '' Error: '' @ m) False s"

definition welcome_text :: jstring where
  "welcome_text =
     lit ''Hello! I'' @ [0x27] @
     lit ''m Prasad K. Gamage, your AI learning assistant. How can I help you today?''"

definition stateless_text :: jstring where
  "stateless_text = lit ''Stateless mode activated. Each message will be independent.''"

text \<open>
  \<open>initSession\<close> after \<open>createSession\<close> has settled with \<open>r\<close>. The result is the
  settlement of the promise that \<open>initSession\<close> returns: \<open>Inl\<close> would be a rejection.
\<close>

definition initSession_resume :: "thrown + jstring \<Rightarrow> chat_state \<Rightarrow> thrown + chat_state" where
  "initSession_resume r s =
     (case r of
        Inr sid \<Rightarrow> Inr (addMessage Assistant welcome_text False (s\<lparr>sessionId := Some sid\<rparr>))
      | Inl e \<Rightarrow> Inr (showError (lit ''Failed to initialize chat session'') s))"

text \<open>
  \<open>handleModeChange\<close>, in the order of its statements: the two unconditional updates, then
  the branch. In the session branch the handler waits for \<open>createSession\<close>; the flag
  returned with the state says whether a \<open>createSession\<close> request is now in flight.
\<close>

definition handleModeChange_clear :: "mode \<Rightarrow> chat_state \<Rightarrow> chat_state" where
  "handleModeChange_clear md s = s\<lparr>currentMode := md, messages := []\<rparr>"

definition handleModeChange_begin :: "mode \<Rightarrow> chat_state \<Rightarrow> chat_state \<times> bool" where
  "handleModeChange_begin md s =
     (let s1 = handleModeChange_clear md s in
      if md = Session then (s1, True)
      else (addMessage Assistant stateless_text False (s1\<lparr>sessionId := None\<rparr>), False))"

text \<open>
  \<open>handleSubmit\<close> up to its \<open>await\<close>. \<open>None\<close> is the early return. Otherwise the new
  state and the arguments of the \<open>sendMessage\<close> call, which are also the values
  (\<open>sessionId\<close>, \<open>userMessage\<close>, \<open>currentMode\<close>) that the rest of the handler keeps using.
\<close>

record send_call =
  call_sessionId :: "jstring option"
  call_message :: jstring
  call_mode :: mode

definition handleSubmit_begin :: "chat_state \<Rightarrow> (chat_state \<times> send_call) option" where
  "handleSubmit_begin s =
     (if \<not> truthy (trim (inputMessage s)) \<or> isLoading s then None
      else
        let userMessage = trim (inputMessage s) in
        Some ((addMessage User userMessage False (s\<lparr>inputMessage := []\<rparr>))\<lparr>isLoading := True\<rparr>,
              \<lparr>call_sessionId = sessionId s, call_message = userMessage,
               call_mode = currentMode s\<rparr>))"

definition dispatched :: "send_call \<Rightarrow> request" where
  "dispatched c = sendMessage_request (call_sessionId c) (call_message c) (call_mode c)"

text \<open>The \<open>try\<close> block after the \<open>await\<close>, the \<open>catch\<close> block, and the whole continuation
  with its \<open>finally\<close>. \<open>md\<close> is the \<open>currentMode\<close> the handler was created with.\<close>

definition handleSubmit_try ::
  "mode \<Rightarrow> thrown + send_response \<Rightarrow> chat_state \<Rightarrow> thrown + chat_state" where
  "handleSubmit_try md r s =
     (case r of
        Inl e \<Rightarrow> Inl e
      | Inr resp \<Rightarrow>
          Inr (addMessage Assistant (response resp) True
                 (if md = Session \<and> truthy_opt (session_id resp)
                  then s\<lparr>sessionId := session_id resp\<rparr> else s)))"

definition handleSubmit_catch :: "thrown \<Rightarrow> chat_state \<Rightarrow> chat_state" where
  "handleSubmit_catch e s =
     showError (case e of Error m \<Rightarrow> m | NonError \<Rightarrow> lit ''Failed to send message'') s"

definition handleSubmit_resume ::
  "mode \<Rightarrow> thrown + send_response \<Rightarrow> chat_state \<Rightarrow> thrown + chat_state" where
  "handleSubmit_resume md r s =
     (case handleSubmit_try md r s of
        Inr s' \<Rightarrow> Inr (s'\<lparr>isLoading := False\<rparr>)
      | Inl e \<Rightarrow> Inr ((handleSubmit_catch e s)\<lparr>isLoading := False\<rparr>))"

text \<open>The input field's \<open>onChange\<close>.\<close>

definition handleChange :: "jstring \<Rightarrow> chat_state \<Rightarrow> chat_state" where
  "handleChange v s = s\<lparr>inputMessage := v\<rparr>"

section \<open>Handlers that run to completion with nothing in between\<close>

definition initSession :: "jstring http_reply \<Rightarrow> chat_state \<Rightarrow> thrown + chat_state" where
  "initSession reply s = initSession_resume (createSession reply) s"

definition handleModeChange ::
  "mode \<Rightarrow> jstring http_reply \<Rightarrow> chat_state \<Rightarrow> thrown + chat_state" where
  "handleModeChange md reply s =
     (case handleModeChange_begin md s of
        (s1, True) \<Rightarrow> initSession reply s1
      | (s1, False) \<Rightarrow> Inr s1)"

definition handleSubmit :: "send_response http_reply \<Rightarrow> chat_state \<Rightarrow> thrown + chat_state" where
  "handleSubmit reply s =
     (case handleSubmit_begin s of
        None \<Rightarrow> Inr s
      | Some (s1, c) \<Rightarrow> handleSubmit_resume (call_mode c) (sendMessage reply) s1)"

text \<open>The request that \<open>handleSubmit\<close> posts; \<open>None\<close> when it returns early.\<close>

definition handleSubmit_request :: "chat_state \<Rightarrow> request option" where
  "handleSubmit_request s = map_option (\<lambda>(s1, c). dispatched c) (handleSubmit_begin s)"

section \<open>Conversations in which every handler finishes before the next one starts\<close>

text \<open>
  What the user does, together with the way the remote call made by that handler settles.
  \<open>conversation\<close> starts where \<open>checkAuth\<close> has received the user and calls
  \<open>initSession\<close>.
\<close>

datatype op =
    TypeText jstring
  | SubmitText "send_response http_reply"
  | SwitchMode mode "jstring http_reply"

fun apply_op :: "op \<Rightarrow> chat_state \<Rightarrow> thrown + chat_state" where
  "apply_op (TypeText v) s = Inr (handleChange v s)"
| "apply_op (SubmitText reply) s = handleSubmit reply s"
| "apply_op (SwitchMode md reply) s = handleModeChange md reply s"

fun run_ops :: "op list \<Rightarrow> chat_state \<Rightarrow> thrown + chat_state" where
  "run_ops [] s = Inr s"
| "run_ops (x # xs) s = (case apply_op x s of Inl e \<Rightarrow> Inl e | Inr s' \<Rightarrow> run_ops xs s')"

definition conversation :: "jstring http_reply \<Rightarrow> op list \<Rightarrow> thrown + chat_state" where
  "conversation reply ops =
     (case initSession reply initial_state of Inl e \<Rightarrow> Inl e | Inr s \<Rightarrow> run_ops ops s)"

text \<open>
  \<open>carries_id reply\<close>: \<open>sendMessage\<close> returns a response whose \<open>session_id\<close> is truthy.
  \<open>quiet x\<close>: the user types, or submits and the response carries no such identifier.
\<close>

definition carries_id :: "send_response http_reply \<Rightarrow> bool" where
  "carries_id reply =
     (case sendMessage reply of Inl e \<Rightarrow> False | Inr resp \<Rightarrow> truthy_opt (session_id resp))"

definition quiet :: "op \<Rightarrow> bool" where
  "quiet x = (case x of TypeText v \<Rightarrow> True | SubmitText reply \<Rightarrow> \<not> carries_id reply
              | SwitchMode md reply \<Rightarrow> False)"

text \<open>
  The history side of the handle's invariant, in the words of the specification rather than
  of the code: a session is established once a \<open>createSession\<close> call has returned or the
  response to a message sent in session mode has carried an identifier, and it stops being
  so when the user switches to stateless mode. \<open>established_step\<close> is the effect of one
  step on that fact, \<open>established_from\<close> follows it along a run, and \<open>established\<close> starts
  with the \<open>createSession\<close> of start-up. \<open>to_stateless x\<close>: \<open>x\<close> is a switch to stateless
  mode.
\<close>

fun established_step :: "op \<Rightarrow> chat_state \<Rightarrow> bool \<Rightarrow> bool" where
  "established_step (TypeText v) s b = b"
| "established_step (SubmitText reply) s b =
     (b \<or> (currentMode s = Session \<and> handleSubmit_request s \<noteq> None \<and> carries_id reply))"
| "established_step (SwitchMode md reply) s b =
     (if md = Session then b \<or> \<not> isl (createSession reply) else False)"

fun established_from :: "op list \<Rightarrow> chat_state \<Rightarrow> bool \<Rightarrow> bool" where
  "established_from [] s b = b"
| "established_from (x # xs) s b =
     (case apply_op x s of
        Inl e \<Rightarrow> b
      | Inr s' \<Rightarrow> established_from xs s' (established_step x s b))"

definition established :: "jstring http_reply \<Rightarrow> op list \<Rightarrow> bool" where
  "established r ops =
     (case initSession r initial_state of
        Inl e \<Rightarrow> False
      | Inr s \<Rightarrow> established_from ops s (\<not> isl (createSession r)))"

definition to_stateless :: "op \<Rightarrow> bool" where
  "to_stateless x = (case x of SwitchMode md reply \<Rightarrow> md = Stateless | _ \<Rightarrow> False)"

section \<open>The component with requests in flight\<close>

text \<open>
  Between the \<open>await\<close> of a handler and its continuation other handlers can run. The
  component is its state together with the continuations that wait for the remote service:
  of a \<open>handleSubmit\<close> (with the arguments of its \<open>sendMessage\<close> call, which the
  continuation keeps) or of an \<open>initSession\<close>.
\<close>

datatype pending = SendPending send_call | CreatePending

text \<open>
  What can happen next: the user types, submits the form or clicks a mode button, or the
  request of the \<open>i\<close>-th waiting continuation settles.
\<close>

datatype event =
    Typed jstring
  | SubmitClicked
  | ModeClicked mode
  | SendSettled nat "send_response http_reply"
  | CreateSettled nat "jstring http_reply"

text \<open>
  \<open>NotEnabled\<close>: there is no such continuation waiting. \<open>Unhandled e\<close>: the handler's
  promise rejects with \<open>e\<close>.
\<close>

datatype outcome = NotEnabled | Unhandled thrown | Next "chat_state \<times> pending list"

definition remove_nth :: "nat \<Rightarrow> 'a list \<Rightarrow> 'a list" where
  "remove_nth i ps = take i ps @ drop (Suc i) ps"

fun fire :: "event \<Rightarrow> chat_state \<times> pending list \<Rightarrow> outcome" where
  "fire (Typed v) (s, ps) = Next (handleChange v s, ps)"
| "fire SubmitClicked (s, ps) =
     (case handleSubmit_begin s of
        None \<Rightarrow> Next (s, ps)
      | Some (s1, c) \<Rightarrow> Next (s1, ps @ [SendPending c]))"
| "fire (ModeClicked md) (s, ps) =
     (case handleModeChange_begin md s of
        (s1, True) \<Rightarrow> Next (s1, ps @ [CreatePending])
      | (s1, False) \<Rightarrow> Next (s1, ps))"
| "fire (SendSettled i reply) (s, ps) =
     (if i < length ps then
        (case ps ! i of
           SendPending c \<Rightarrow>
             (case handleSubmit_resume (call_mode c) (sendMessage reply) s of
                Inl e \<Rightarrow> Unhandled e
              | Inr s' \<Rightarrow> Next (s', remove_nth i ps))
         | CreatePending \<Rightarrow> NotEnabled)
      else NotEnabled)"
| "fire (CreateSettled i reply) (s, ps) =
     (if i < length ps then
        (case ps ! i of
           CreatePending \<Rightarrow>
             (case initSession_resume (createSession reply) s of
                Inl e \<Rightarrow> Unhandled e
              | Inr s' \<Rightarrow> Next (s', remove_nth i ps))
         | SendPending c \<Rightarrow> NotEnabled)
      else NotEnabled)"

fun run :: "event list \<Rightarrow> chat_state \<times> pending list \<Rightarrow> outcome" where
  "run [] c = Next c"
| "run (e # es) c = (case fire e c of Next c' \<Rightarrow> run es c' | Unhandled x \<Rightarrow> Unhandled x
                     | NotEnabled \<Rightarrow> NotEnabled)"

section \<open>Basic facts\<close>

lemma trim_empty_iff: "trim t = [] \<longleftrightarrow> (\<forall>u \<in> set t. isWhiteSpace u)"
proof
  assume "trim t = []"
  then have "dropWhile isWhiteSpace (rev (dropWhile isWhiteSpace t)) = []"
    by (simp add: trim_def)
  then have all: "\<forall>u \<in> set (dropWhile isWhiteSpace t). isWhiteSpace u"
    by (simp add: dropWhile_eq_Nil_conv)
  have "dropWhile isWhiteSpace t = []"
  proof (rule ccontr)
    assume ne: "dropWhile isWhiteSpace t \<noteq> []"
    then have "\<not> isWhiteSpace (hd (dropWhile isWhiteSpace t))"
      by (rule hd_dropWhile)
    moreover from ne have "hd (dropWhile isWhiteSpace t) \<in> set (dropWhile isWhiteSpace t)"
      by (rule hd_in_set)
    ultimately show False using all by blast
  qed
  then show "\<forall>u \<in> set t. isWhiteSpace u"
    by (simp add: dropWhile_eq_Nil_conv)
next
  assume "\<forall>u \<in> set t. isWhiteSpace u"
  then show "trim t = []"
    by (auto simp: trim_def dest: set_dropWhileD)
qed

lemma handleSubmit_begin_Some:
  assumes "trim (inputMessage s) \<noteq> []" and "\<not> isLoading s"
  shows "handleSubmit_begin s =
     Some (s\<lparr>inputMessage := [],
              messages := messages s @
                [\<lparr>role = User, content = trim (inputMessage s), isMarkdown = False\<rparr>],
              isLoading := True\<rparr>,
           \<lparr>call_sessionId = sessionId s, call_message = trim (inputMessage s),
            call_mode = currentMode s\<rparr>)"
  using assms by (simp add: handleSubmit_begin_def truthy_def Let_def addMessage_def)

lemma handleSubmit_begin_None:
  "trim (inputMessage s) = [] \<or> isLoading s \<Longrightarrow> handleSubmit_begin s = None"
  by (auto simp: handleSubmit_begin_def truthy_def)

lemma handleSubmit_resume_eq:
  "handleSubmit_resume md r s =
     Inr (case r of
            Inr resp \<Rightarrow>
              s\<lparr>sessionId := (if md = Session \<and> truthy_opt (session_id resp)
                               then session_id resp else sessionId s),
                messages := messages s @
                  [\<lparr>role = Assistant, content = response resp, isMarkdown = True\<rparr>],
                isLoading := False\<rparr>
          | Inl e \<Rightarrow>
              s\<lparr>messages := messages s @
                  [\<lparr>role = Assistant,
                    content = cross_mark @ lit '' Error: '' @
                      (case e of Error m \<Rightarrow> m | NonError \<Rightarrow> lit ''Failed to send message''),
                    isMarkdown = False\<rparr>],
                isLoading := False\<rparr>)"
  by (simp add: handleSubmit_resume_def handleSubmit_try_def handleSubmit_catch_def
      showError_def addMessage_def split: sum.split)

lemma handleSubmit_resume_Inr:
  "\<exists>s'. handleSubmit_resume md r s = Inr s'"
  by (simp add: handleSubmit_resume_def split: sum.split)

lemma handleSubmit_resume_isLoading:
  "handleSubmit_resume md r s = Inr s' \<Longrightarrow> \<not> isLoading s'"
  by (auto simp: handleSubmit_resume_def split: sum.splits)

lemma handleSubmit_eq:
  assumes "trim (inputMessage s) \<noteq> []" and "\<not> isLoading s"
  shows "handleSubmit reply s =
     Inr (case sendMessage reply of
            Inr resp \<Rightarrow>
              s\<lparr>sessionId := (if currentMode s = Session \<and> truthy_opt (session_id resp)
                               then session_id resp else sessionId s),
                messages := messages s @
                  [\<lparr>role = User, content = trim (inputMessage s), isMarkdown = False\<rparr>,
                   \<lparr>role = Assistant, content = response resp, isMarkdown = True\<rparr>],
                inputMessage := [],
                isLoading := False\<rparr>
          | Inl e \<Rightarrow>
              s\<lparr>messages := messages s @
                  [\<lparr>role = User, content = trim (inputMessage s), isMarkdown = False\<rparr>,
                   \<lparr>role = Assistant,
                    content = cross_mark @ lit '' Error: '' @
                      (case e of Error m \<Rightarrow> m | NonError \<Rightarrow> lit ''Failed to send message''),
                    isMarkdown = False\<rparr>],
                inputMessage := [],
                isLoading := False\<rparr>)"
  by (simp add: handleSubmit_def handleSubmit_begin_Some [OF assms] handleSubmit_resume_eq
      split: sum.split)

lemma handleSubmit_skip:
  "trim (inputMessage s) = [] \<or> isLoading s \<Longrightarrow> handleSubmit reply s = Inr s"
  by (simp add: handleSubmit_def handleSubmit_begin_None)

lemma handleSubmit_request_eq:
  assumes "trim (inputMessage s) \<noteq> []" and "\<not> isLoading s"
  shows "handleSubmit_request s =
     Some (sendMessage_request (sessionId s) (trim (inputMessage s)) (currentMode s))"
  by (simp add: handleSubmit_request_def handleSubmit_begin_Some [OF assms] dispatched_def)

lemma handleModeChange_Stateless_eq:
  "handleModeChange Stateless reply s =
     Inr (s\<lparr>sessionId := None, currentMode := Stateless,
            messages := [\<lparr>role = Assistant, content = stateless_text, isMarkdown = False\<rparr>]\<rparr>)"
  by (simp add: handleModeChange_def handleModeChange_begin_def handleModeChange_clear_def
      addMessage_def)

lemma handleModeChange_Session_eq:
  "handleModeChange Session reply s =
     Inr (case createSession reply of
            Inr sid \<Rightarrow>
              s\<lparr>sessionId := Some sid, currentMode := Session,
                messages := [\<lparr>role = Assistant, content = welcome_text, isMarkdown = False\<rparr>]\<rparr>
          | Inl e \<Rightarrow>
              s\<lparr>currentMode := Session,
                messages :=
                  [\<lparr>role = Assistant,
                    content = cross_mark @ lit '' Error: '' @
                      lit ''Failed to initialize chat session'',
                    isMarkdown = False\<rparr>]\<rparr>)"
  by (simp add: handleModeChange_def handleModeChange_begin_def handleModeChange_clear_def
      initSession_def initSession_resume_def showError_def addMessage_def split: sum.split)

lemma apply_op_quiet:
  assumes "quiet x" and "\<not> isLoading s"
  shows "\<exists>s'. apply_op x s = Inr s' \<and> sessionId s' = sessionId s \<and>
           currentMode s' = currentMode s \<and> \<not> isLoading s'"
proof (cases x)
  case (TypeText v)
  with assms show ?thesis by (simp add: handleChange_def)
next
  case (SubmitText reply)
  show ?thesis
  proof (cases "trim (inputMessage s) = []")
    case True
    with SubmitText assms show ?thesis by (simp add: handleSubmit_skip)
  next
    case False
    with SubmitText assms show ?thesis
      by (simp add: handleSubmit_eq quiet_def carries_id_def split: sum.splits)
  qed
next
  case (SwitchMode md reply)
  with assms show ?thesis by (simp add: quiet_def)
qed

lemma run_ops_quiet:
  assumes "\<forall>x \<in> set xs. quiet x" and "\<not> isLoading s"
  shows "\<exists>s'. run_ops xs s = Inr s' \<and> sessionId s' = sessionId s \<and>
           currentMode s' = currentMode s \<and> \<not> isLoading s'"
  using assms
proof (induction xs arbitrary: s)
  case Nil
  then show ?case by simp
next
  case (Cons x xs)
  from Cons.prems obtain s1 where s1: "apply_op x s = Inr s1" "sessionId s1 = sessionId s"
      "currentMode s1 = currentMode s" "\<not> isLoading s1"
    using apply_op_quiet [of x s] by auto
  from Cons.prems have "\<forall>x \<in> set xs. quiet x" by simp
  from Cons.IH [OF this s1(4)] s1 show ?case by auto
qed

lemma initSession_eq:
  "initSession r s =
     Inr (case createSession r of
            Inr sid \<Rightarrow>
              s\<lparr>sessionId := Some sid,
                messages := messages s @
                  [\<lparr>role = Assistant, content = welcome_text, isMarkdown = False\<rparr>]\<rparr>
          | Inl e \<Rightarrow>
              s\<lparr>messages := messages s @
                  [\<lparr>role = Assistant,
                    content = cross_mark @ lit '' Error: '' @
                      lit ''Failed to initialize chat session'',
                    isMarkdown = False\<rparr>]\<rparr>)"
  by (simp add: initSession_def initSession_resume_def showError_def addMessage_def
      split: sum.split)

lemma handleSubmit_request_None:
  "trim (inputMessage s) = [] \<or> isLoading s \<Longrightarrow> handleSubmit_request s = None"
  by (simp add: handleSubmit_request_def handleSubmit_begin_None)

lemma apply_op_established:
  assumes "sessionId s \<noteq> None \<longleftrightarrow> b" and "b \<longrightarrow> currentMode s = Session"
  shows "\<exists>s'. apply_op x s = Inr s' \<and>
           (sessionId s' \<noteq> None \<longleftrightarrow> established_step x s b) \<and>
           (established_step x s b \<longrightarrow> currentMode s' = Session)"
proof (cases x)
  case (TypeText v)
  with assms show ?thesis by (simp add: handleChange_def)
next
  case (SubmitText reply)
  show ?thesis
  proof (cases "trim (inputMessage s) = [] \<or> isLoading s")
    case True
    with SubmitText assms show ?thesis
      by (simp add: handleSubmit_skip handleSubmit_request_None)
  next
    case False
    then have g: "trim (inputMessage s) \<noteq> []" "\<not> isLoading s" by simp_all
    show ?thesis
    proof (cases "sendMessage reply")
      case (Inl e)
      with SubmitText assms show ?thesis
        by (simp add: handleSubmit_eq [OF g] carries_id_def)
    next
      case (Inr resp)
      with SubmitText assms show ?thesis
        by (auto simp: handleSubmit_eq [OF g] handleSubmit_request_eq [OF g] carries_id_def
            truthy_opt_def split: option.splits)
    qed
  qed
next
  case (SwitchMode md reply)
  show ?thesis
  proof (cases md)
    case Session
    with SwitchMode assms show ?thesis
      by (cases "createSession reply") (simp_all add: handleModeChange_Session_eq)
  next
    case Stateless
    with SwitchMode show ?thesis
      by (simp add: handleModeChange_Stateless_eq)
  qed
qed

lemma run_ops_established:
  assumes "sessionId s \<noteq> None \<longleftrightarrow> b" and "b \<longrightarrow> currentMode s = Session"
  shows "\<exists>s'. run_ops xs s = Inr s' \<and>
           (sessionId s' \<noteq> None \<longleftrightarrow> established_from xs s b) \<and>
           (established_from xs s b \<longrightarrow> currentMode s' = Session)"
  using assms
proof (induction xs arbitrary: s b)
  case Nil
  then show ?case by simp
next
  case (Cons x xs)
  from apply_op_established [OF Cons.prems, of x] obtain s1 where
    s1: "apply_op x s = Inr s1" "sessionId s1 \<noteq> None \<longleftrightarrow> established_step x s b"
      "established_step x s b \<longrightarrow> currentMode s1 = Session"
    by blast
  from Cons.IH [OF s1(2) s1(3)] s1(1) show ?case by simp
qed

lemma established_from_stays:
  assumes "b" and "\<forall>x \<in> set xs. \<not> to_stateless x"
  shows "established_from xs s b"
  using assms
proof (induction xs arbitrary: s b)
  case Nil
  then show ?case by simp
next
  case (Cons x xs)
  have "established_step x s b"
  proof (cases x)
    case (TypeText v)
    with Cons.prems show ?thesis by simp
  next
    case (SubmitText reply)
    with Cons.prems show ?thesis by simp
  next
    case (SwitchMode md reply)
    with Cons.prems show ?thesis by (cases md) (simp_all add: to_stateless_def)
  qed
  with Cons show ?case by (simp split: sum.split)
qed

section \<open>Claims\<close>

text \<open>
  C1. Whenever \<open>handleSubmit\<close> is invoked with an input that is non-empty after trimming and
  with \<open>isLoading\<close> false, the handler completes (its promise is fulfilled, for every way the
  remote send can settle, success or failure) and \<open>isLoading\<close> is false in the state it
  leaves. In between \<open>isLoading\<close> is true, and the continuation resets it whatever the state
  has become by the time the send settles.
\<close>

theorem C1_submit_resets_isLoading:
  assumes "trim (inputMessage s) \<noteq> []" and "\<not> isLoading s"
  shows "(\<exists>s'. handleSubmit reply s = Inr s' \<and> \<not> isLoading s') \<and>
     (\<exists>s1 c. handleSubmit_begin s = Some (s1, c) \<and> isLoading s1 \<and>
        (\<forall>s2. \<exists>s3. handleSubmit_resume (call_mode c) (sendMessage reply) s2 = Inr s3 \<and>
                 \<not> isLoading s3))"
proof -
  from assms obtain s1 c where b: "handleSubmit_begin s = Some (s1, c)" and l: "isLoading s1"
    by (simp add: handleSubmit_begin_Some)
  have r: "\<exists>s3. handleSubmit_resume (call_mode c) (sendMessage reply) s2 = Inr s3 \<and>
              \<not> isLoading s3" for s2
    using handleSubmit_resume_Inr [of "call_mode c" "sendMessage reply" s2]
      handleSubmit_resume_isLoading by blast
  from r [of s1] b have "\<exists>s'. handleSubmit reply s = Inr s' \<and> \<not> isLoading s'"
    by (simp add: handleSubmit_def)
  with b l r show ?thesis by blast
qed

theorem C1_submit_resets_isLoading_witness:
  "trim (inputMessage (handleChange (lit '' hello'') initial_state)) \<noteq> [] \<and>
   \<not> isLoading (handleChange (lit '' hello'') initial_state) \<and>
   (\<exists>s'. handleSubmit (Ok (Inr \<lparr>response = lit ''Hi!'', session_id = Some (lit ''S1'')\<rparr>))
            (handleChange (lit '' hello'') initial_state) = Inr s' \<and> \<not> isLoading s')"
proof -
  have a: "trim (inputMessage (handleChange (lit '' hello'') initial_state)) \<noteq> []"
    by (simp add: handleChange_def initial_state_def trim_def lit_def isWhiteSpace_def)
  have b: "\<not> isLoading (handleChange (lit '' hello'') initial_state)"
    by (simp add: handleChange_def initial_state_def)
  from C1_submit_resets_isLoading [OF a b] a b show ?thesis by blast
qed

text \<open>
  C2. Under the same preconditions \<open>handleSubmit\<close> completes without rejecting and leaves
  the transcript extended by exactly two entries: the user entry with the trimmed input,
  then one assistant entry. When \<open>sendMessage\<close> returns, that entry holds the response text
  and is flagged as markdown; when \<open>sendMessage\<close> throws, it holds the cross mark,
  \<open>Error:\<close> and the message of the thrown error, and is not flagged as markdown.
\<close>

theorem C2_submit_appends_one_assistant_entry:
  assumes "trim (inputMessage s) \<noteq> []" and "\<not> isLoading s"
  shows "\<exists>s'. handleSubmit reply s = Inr s' \<and>
     messages s' = messages s @
       [\<lparr>role = User, content = trim (inputMessage s), isMarkdown = False\<rparr>,
        (case sendMessage reply of
           Inr resp \<Rightarrow> \<lparr>role = Assistant, content = response resp, isMarkdown = True\<rparr>
         | Inl e \<Rightarrow>
             \<lparr>role = Assistant,
              content = cross_mark @ lit '' Error: '' @
                (case e of Error m \<Rightarrow> m | NonError \<Rightarrow> lit ''Failed to send message''),
              isMarkdown = False\<rparr>)]"
  by (simp add: handleSubmit_def handleSubmit_begin_Some [OF assms] handleSubmit_resume_eq
      split: sum.split)

theorem C2_submit_appends_one_assistant_entry_witness:
  "trim (inputMessage
      \<lparr>sessionId = None, currentMode = Stateless,
       messages = [\<lparr>role = Assistant, content = stateless_text, isMarkdown = False\<rparr>],
       inputMessage = lit ''2+2?'', isLoading = False\<rparr>) \<noteq> [] \<and>
   (\<exists>s'. handleSubmit (NetworkFailure (lit ''Failed to fetch''))
      \<lparr>sessionId = None, currentMode = Stateless,
       messages = [\<lparr>role = Assistant, content = stateless_text, isMarkdown = False\<rparr>],
       inputMessage = lit ''2+2?'', isLoading = False\<rparr> = Inr s' \<and>
      messages s' =
        [\<lparr>role = Assistant, content = stateless_text, isMarkdown = False\<rparr>,
         \<lparr>role = User, content = lit ''2+2?'', isMarkdown = False\<rparr>,
         \<lparr>role = Assistant, content = cross_mark @ lit '' Error: Failed to fetch'',
          isMarkdown = False\<rparr>])"
proof -
  let ?s = "\<lparr>sessionId = None, currentMode = Stateless,
       messages = [\<lparr>role = Assistant, content = stateless_text, isMarkdown = False\<rparr>],
       inputMessage = lit ''2+2?'', isLoading = False\<rparr>"
  have t: "trim (inputMessage ?s) = lit ''2+2?''"
    by (simp add: trim_def lit_def isWhiteSpace_def)
  have a: "trim (inputMessage ?s) \<noteq> []"
    by (simp add: trim_def lit_def isWhiteSpace_def)
  have b: "\<not> isLoading ?s" by simp
  have c: "sendMessage (NetworkFailure (lit ''Failed to fetch'')) = Inl (Error (lit ''Failed to fetch''))"
    by (simp add: sendMessage_def)
  from C2_submit_appends_one_assistant_entry [OF a b, of "NetworkFailure (lit ''Failed to fetch'')"]
  obtain s' where "handleSubmit (NetworkFailure (lit ''Failed to fetch'')) ?s = Inr s'"
    and "messages s' = messages ?s @
       [\<lparr>role = User, content = trim (inputMessage ?s), isMarkdown = False\<rparr>,
        \<lparr>role = Assistant,
              content = cross_mark @ lit '' Error: '' @ lit ''Failed to fetch'',
              isMarkdown = False\<rparr>]"
    unfolding c by auto
  moreover have "lit '' Error: '' @ lit ''Failed to fetch'' = lit '' Error: Failed to fetch''"
    by (simp add: lit_def)
  ultimately show ?thesis using a unfolding t by auto
qed

text \<open>
  C3. After a \<open>handleSubmit\<close> in session mode whose response carries a (non-empty) session
  identifier, \<open>sessionId\<close> is that identifier, and it is the one that later sends target:
  after any further typing and submits whose responses carry no identifier, the next request
  goes to \<open>/chat/session/\<close> followed by the new identifier. In stateless mode the request
  goes to \<open>/chat/stateless\<close> and \<open>sessionId\<close> is left as it was, whatever the response
  holds.
\<close>

theorem C3_session_id_adopted:
  assumes "trim (inputMessage s) \<noteq> []" and "\<not> isLoading s"
  shows "(currentMode s = Session \<and> sendMessage reply = Inr resp \<and>
            session_id resp = Some sid \<and> sid \<noteq> [] \<longrightarrow>
          (\<exists>s'. handleSubmit reply s = Inr s' \<and> sessionId s' = Some sid \<and>
             (\<forall>ops v. (\<forall>x \<in> set ops. quiet x) \<and> trim v \<noteq> [] \<longrightarrow>
                (\<exists>s''. run_ops ops s' = Inr s'' \<and>
                   handleSubmit_request (handleChange v s'') =
                     Some \<lparr>endpoint = lit ''/chat/session/'' @ sid,
                           body_message = Some (trim v)\<rparr>)))) \<and>
         (currentMode s = Stateless \<longrightarrow>
            handleSubmit_request s =
              Some \<lparr>endpoint = lit ''/chat/stateless'',
                    body_message = Some (trim (inputMessage s))\<rparr> \<and>
            (\<exists>s'. handleSubmit reply s = Inr s' \<and> sessionId s' = sessionId s))"
proof (intro conjI impI)
  assume a: "currentMode s = Session \<and> sendMessage reply = Inr resp \<and>
            session_id resp = Some sid \<and> sid \<noteq> []"
  define s' where "s' = s\<lparr>sessionId := Some sid,
                messages := messages s @
                  [\<lparr>role = User, content = trim (inputMessage s), isMarkdown = False\<rparr>,
                   \<lparr>role = Assistant, content = response resp, isMarkdown = True\<rparr>],
                inputMessage := [],
                isLoading := False\<rparr>"
  have h: "handleSubmit reply s = Inr s'"
    using a by (simp add: handleSubmit_eq [OF assms] s'_def truthy_opt_def truthy_def)
  have p: "sessionId s' = Some sid" "currentMode s' = Session" "\<not> isLoading s'"
    using a by (simp_all add: s'_def)
  have "\<exists>s''. run_ops ops s' = Inr s'' \<and>
           handleSubmit_request (handleChange v s'') =
             Some \<lparr>endpoint = lit ''/chat/session/'' @ sid, body_message = Some (trim v)\<rparr>"
    if q: "\<forall>x \<in> set ops. quiet x" and t: "trim v \<noteq> []" for ops v
  proof -
    from run_ops_quiet [OF q p(3)] p obtain s'' where
      r: "run_ops ops s' = Inr s''" "sessionId s'' = Some sid" "currentMode s'' = Session"
        "\<not> isLoading s''"
      by auto
    have "handleSubmit_request (handleChange v s'') =
        Some (sendMessage_request (sessionId (handleChange v s''))
                (trim (inputMessage (handleChange v s''))) (currentMode (handleChange v s'')))"
      using t r(4) by (intro handleSubmit_request_eq) (simp_all add: handleChange_def)
    with r show ?thesis
      by (simp add: handleChange_def sendMessage_request_def interpolate_def)
  qed
  with h p(1) show "\<exists>s'. handleSubmit reply s = Inr s' \<and> sessionId s' = Some sid \<and>
             (\<forall>ops v. (\<forall>x \<in> set ops. quiet x) \<and> trim v \<noteq> [] \<longrightarrow>
                (\<exists>s''. run_ops ops s' = Inr s'' \<and>
                   handleSubmit_request (handleChange v s'') =
                     Some \<lparr>endpoint = lit ''/chat/session/'' @ sid,
                           body_message = Some (trim v)\<rparr>))"
    by blast
next
  assume "currentMode s = Stateless"
  then show "handleSubmit_request s =
              Some \<lparr>endpoint = lit ''/chat/stateless'',
                    body_message = Some (trim (inputMessage s))\<rparr>"
    by (simp add: handleSubmit_request_eq [OF assms] sendMessage_request_def)
next
  assume "currentMode s = Stateless"
  then show "\<exists>s'. handleSubmit reply s = Inr s' \<and> sessionId s' = sessionId s"
    by (simp add: handleSubmit_eq [OF assms] split: sum.split)
qed

theorem C3_session_id_adopted_witness:
  "(\<exists>s'. handleSubmit (Ok (Inr \<lparr>response = lit ''Hi!'', session_id = Some (lit ''S2'')\<rparr>))
       \<lparr>sessionId = Some (lit ''S1''), currentMode = Session, messages = [],
        inputMessage = lit ''hello'', isLoading = False\<rparr> = Inr s' \<and>
      sessionId s' = Some (lit ''S2'') \<and>
      (\<exists>s''. run_ops [TypeText (lit ''more''),
                       SubmitText (Ok (Inr \<lparr>response = lit ''Sure'', session_id = None\<rparr>))] s' =
                Inr s'' \<and>
         handleSubmit_request (handleChange (lit ''again'') s'') =
           Some \<lparr>endpoint = lit ''/chat/session/'' @ lit ''S2'',
                 body_message = Some (trim (lit ''again''))\<rparr>)) \<and>
   handleSubmit_request
     \<lparr>sessionId = None, currentMode = Stateless, messages = [],
      inputMessage = lit ''hello'', isLoading = False\<rparr> =
     Some \<lparr>endpoint = lit ''/chat/stateless'', body_message = Some (lit ''hello'')\<rparr> \<and>
   (\<exists>s'. handleSubmit (Ok (Inr \<lparr>response = lit ''Hi!'', session_id = Some (lit ''S2'')\<rparr>))
       \<lparr>sessionId = None, currentMode = Stateless, messages = [],
        inputMessage = lit ''hello'', isLoading = False\<rparr> = Inr s' \<and>
      sessionId s' = None)"
proof -
  let ?reply = "Ok (Inr \<lparr>response = lit ''Hi!'', session_id = Some (lit ''S2'')\<rparr>)"
  let ?s = "\<lparr>sessionId = Some (lit ''S1''), currentMode = Session, messages = [],
        inputMessage = lit ''hello'', isLoading = False\<rparr>"
  let ?u = "\<lparr>sessionId = None, currentMode = Stateless, messages = [],
      inputMessage = lit ''hello'', isLoading = False\<rparr>"
  have t: "trim (lit ''hello'') = lit ''hello''"
    by (simp add: trim_def lit_def isWhiteSpace_def)
  have a: "trim (inputMessage ?s) \<noteq> []" "\<not> isLoading ?s"
    by (simp_all add: trim_def lit_def isWhiteSpace_def)
  have b: "trim (inputMessage ?u) \<noteq> []" "\<not> isLoading ?u"
    by (simp_all add: trim_def lit_def isWhiteSpace_def)
  have c: "currentMode ?s = Session \<and>
      sendMessage ?reply = Inr \<lparr>response = lit ''Hi!'', session_id = Some (lit ''S2'')\<rparr> \<and>
      session_id \<lparr>response = lit ''Hi!'', session_id = Some (lit ''S2'')\<rparr> = Some (lit ''S2'') \<and>
      lit ''S2'' \<noteq> []"
    by (simp add: sendMessage_def lit_def)
  have q: "(\<forall>x \<in> set [TypeText (lit ''more''),
                       SubmitText (Ok (Inr \<lparr>response = lit ''Sure'', session_id = None\<rparr>))]. quiet x) \<and>
      trim (lit ''again'') \<noteq> []"
    by (simp add: quiet_def carries_id_def sendMessage_def truthy_opt_def trim_def lit_def
        isWhiteSpace_def)
  from C3_session_id_adopted [OF a, of ?reply "\<lparr>response = lit ''Hi!'', session_id = Some (lit ''S2'')\<rparr>" "lit ''S2''"] c
  obtain s' where s': "handleSubmit ?reply ?s = Inr s'" "sessionId s' = Some (lit ''S2'')"
    and n: "\<forall>ops v. (\<forall>x \<in> set ops. quiet x) \<and> trim v \<noteq> [] \<longrightarrow>
                (\<exists>s''. run_ops ops s' = Inr s'' \<and>
                   handleSubmit_request (handleChange v s'') =
                     Some \<lparr>endpoint = lit ''/chat/session/'' @ lit ''S2'',
                           body_message = Some (trim v)\<rparr>)"
    by blast
  from n q have "\<exists>s''. run_ops [TypeText (lit ''more''),
                       SubmitText (Ok (Inr \<lparr>response = lit ''Sure'', session_id = None\<rparr>))] s' =
                Inr s'' \<and>
         handleSubmit_request (handleChange (lit ''again'') s'') =
           Some \<lparr>endpoint = lit ''/chat/session/'' @ lit ''S2'',
                 body_message = Some (trim (lit ''again''))\<rparr>"
    by blast
  with s' have 1: "\<exists>s'. handleSubmit ?reply ?s = Inr s' \<and>
      sessionId s' = Some (lit ''S2'') \<and>
      (\<exists>s''. run_ops [TypeText (lit ''more''),
                       SubmitText (Ok (Inr \<lparr>response = lit ''Sure'', session_id = None\<rparr>))] s' =
                Inr s'' \<and>
         handleSubmit_request (handleChange (lit ''again'') s'') =
           Some \<lparr>endpoint = lit ''/chat/session/'' @ lit ''S2'',
                 body_message = Some (trim (lit ''again''))\<rparr>)"
    by blast
  have "currentMode ?u = Stateless" by simp
  with C3_session_id_adopted [OF b, of ?reply] have
    "handleSubmit_request ?u =
       Some \<lparr>endpoint = lit ''/chat/stateless'', body_message = Some (trim (inputMessage ?u))\<rparr> \<and>
     (\<exists>s'. handleSubmit ?reply ?u = Inr s' \<and> sessionId s' = sessionId ?u)"
    by blast
  then have 2: "handleSubmit_request ?u =
       Some \<lparr>endpoint = lit ''/chat/stateless'', body_message = Some (lit ''hello'')\<rparr> \<and>
     (\<exists>s'. handleSubmit ?reply ?u = Inr s' \<and> sessionId s' = None)"
    by (simp add: t)
  from 1 2 show ?thesis by blast
qed

text \<open>
  C4. \<open>handleSubmit\<close> returns early, leaving the whole state (transcript, \<open>isLoading\<close>,
  \<open>sessionId\<close>, input) as it was and posting no request, when the input is empty, when it
  consists of white space only, and when \<open>isLoading\<close> is true.
\<close>

theorem C4_submit_rejected:
  assumes "inputMessage s = [] \<or> (\<forall>u \<in> set (inputMessage s). isWhiteSpace u) \<or> isLoading s"
  shows "handleSubmit reply s = Inr s \<and> handleSubmit_request s = None"
proof -
  from assms have "trim (inputMessage s) = [] \<or> isLoading s"
    by (auto simp: trim_empty_iff)
  then show ?thesis
    by (simp add: handleSubmit_skip handleSubmit_request_def handleSubmit_begin_None)
qed

theorem C4_submit_rejected_witness:
  "list_all isWhiteSpace (inputMessage (handleChange (lit ''   '') initial_state)) \<and>
   handleSubmit (Ok (Inr \<lparr>response = lit ''Hi!'', session_id = None\<rparr>))
     (handleChange (lit ''   '') initial_state) = Inr (handleChange (lit ''   '') initial_state) \<and>
   handleSubmit_request (handleChange (lit ''   '') initial_state) = None \<and>
   isLoading \<lparr>sessionId = Some (lit ''S1''), currentMode = Session,
      messages = [\<lparr>role = User, content = lit ''hello'', isMarkdown = False\<rparr>],
      inputMessage = lit ''more'', isLoading = True\<rparr> \<and>
   handleSubmit (Ok (Inr \<lparr>response = lit ''Hi!'', session_id = None\<rparr>))
     \<lparr>sessionId = Some (lit ''S1''), currentMode = Session,
      messages = [\<lparr>role = User, content = lit ''hello'', isMarkdown = False\<rparr>],
      inputMessage = lit ''more'', isLoading = True\<rparr> =
   Inr \<lparr>sessionId = Some (lit ''S1''), currentMode = Session,
      messages = [\<lparr>role = User, content = lit ''hello'', isMarkdown = False\<rparr>],
      inputMessage = lit ''more'', isLoading = True\<rparr> \<and>
   handleSubmit_request
     \<lparr>sessionId = Some (lit ''S1''), currentMode = Session,
      messages = [\<lparr>role = User, content = lit ''hello'', isMarkdown = False\<rparr>],
      inputMessage = lit ''more'', isLoading = True\<rparr> = None"
proof -
  let ?a = "handleChange (lit ''   '') initial_state"
  let ?b = "\<lparr>sessionId = Some (lit ''S1''), currentMode = Session,
      messages = [\<lparr>role = User, content = lit ''hello'', isMarkdown = False\<rparr>],
      inputMessage = lit ''more'', isLoading = True\<rparr>"
  have a: "\<forall>u \<in> set (inputMessage ?a). isWhiteSpace u"
    by (simp add: handleChange_def lit_def isWhiteSpace_def)
  have b: "isLoading ?b" by simp
  from a have "inputMessage ?a = [] \<or> (\<forall>u \<in> set (inputMessage ?a). isWhiteSpace u) \<or> isLoading ?a"
    by blast
  note 1 = C4_submit_rejected [OF this]
  from b have "inputMessage ?b = [] \<or> (\<forall>u \<in> set (inputMessage ?b). isWhiteSpace u) \<or> isLoading ?b"
    by blast
  note 2 = C4_submit_rejected [OF this]
  from a have "list_all isWhiteSpace (inputMessage ?a)"
    by (simp add: list_all_iff)
  with b 1 2 show ?thesis by blast
qed

text \<open>
  C5 (as amended). \<open>handleModeChange\<close> to session mode completes in one of two ways. When
  \<open>createSession\<close> returns, \<open>sessionId\<close> is the returned identifier and the transcript is
  the welcome entry alone. When \<open>createSession\<close> throws, the transcript is the error entry
  alone and \<open>sessionId\<close> is what it was before the switch: absent if it was absent, and the
  earlier identifier otherwise.
\<close>

theorem C5_switch_to_session:
  "\<exists>s'. handleModeChange Session reply s = Inr s' \<and> currentMode s' = Session \<and>
     (case createSession reply of
        Inr sid \<Rightarrow>
          sessionId s' = Some sid \<and>
          messages s' = [\<lparr>role = Assistant, content = welcome_text, isMarkdown = False\<rparr>]
      | Inl e \<Rightarrow>
          sessionId s' = sessionId s \<and>
          messages s' =
            [\<lparr>role = Assistant,
              content = cross_mark @ lit '' Error: '' @ lit ''Failed to initialize chat session'',
              isMarkdown = False\<rparr>])"
  by (simp add: handleModeChange_Session_eq split: sum.split)

theorem C5_switch_to_session_witness:
  "(\<exists>s'. handleModeChange Session (Ok (Inr (lit ''S1'')))
       \<lparr>sessionId = None, currentMode = Stateless,
        messages = [\<lparr>role = Assistant, content = stateless_text, isMarkdown = False\<rparr>],
        inputMessage = [], isLoading = False\<rparr> = Inr s' \<and>
      currentMode s' = Session \<and> sessionId s' = Some (lit ''S1'') \<and>
      messages s' = [\<lparr>role = Assistant, content = welcome_text, isMarkdown = False\<rparr>]) \<and>
   (\<exists>s'. handleModeChange Session (NotOk (Inr Undefined))
       \<lparr>sessionId = None, currentMode = Stateless,
        messages = [\<lparr>role = Assistant, content = stateless_text, isMarkdown = False\<rparr>],
        inputMessage = [], isLoading = False\<rparr> = Inr s' \<and>
      currentMode s' = Session \<and> sessionId s' = None \<and>
      messages s' =
        [\<lparr>role = Assistant,
          content = cross_mark @ lit '' Error: '' @ lit ''Failed to initialize chat session'',
          isMarkdown = False\<rparr>])"
proof -
  let ?s = "\<lparr>sessionId = None, currentMode = Stateless,
        messages = [\<lparr>role = Assistant, content = stateless_text, isMarkdown = False\<rparr>],
        inputMessage = [], isLoading = False\<rparr>"
  have a: "createSession (Ok (Inr (lit ''S1''))) = Inr (lit ''S1'')"
    by (simp add: createSession_def)
  have b: "createSession (NotOk (Inr Undefined)) = Inl (Error (lit ''Failed to create session''))"
    by (simp add: createSession_def)
  from C5_switch_to_session [of "Ok (Inr (lit ''S1''))" ?s]
    C5_switch_to_session [of "NotOk (Inr Undefined)" ?s]
  show ?thesis unfolding a b by simp
qed

text \<open>
  C5 as stated fails: with the identifier \<open>S1\<close> stored, selecting session mode again while
  \<open>createSession\<close> is refused ends with the error entry and with \<open>S1\<close> still stored, which
  is neither of the two states of the claim.
\<close>

theorem C5_counterexample:
  "handleModeChange Session (NotOk (Inr Undefined))
     \<lparr>sessionId = Some (lit ''S1''), currentMode = Session,
      messages = [\<lparr>role = Assistant, content = welcome_text, isMarkdown = False\<rparr>],
      inputMessage = [], isLoading = False\<rparr> =
   Inr \<lparr>sessionId = Some (lit ''S1''), currentMode = Session,
        messages =
          [\<lparr>role = Assistant,
            content = cross_mark @ lit '' Error: '' @ lit ''Failed to initialize chat session'',
            isMarkdown = False\<rparr>],
        inputMessage = [], isLoading = False\<rparr>"
  by (simp add: handleModeChange_Session_eq createSession_def)

text \<open>
  C6 (as amended). In a conversation whose handlers each finish before the next one starts,
  \<open>sessionId\<close> is stored if and only if the mode is session and a session has been
  established since the handle was last cleared: a \<open>createSession\<close> call has returned, or the
  response to a message sent in session mode has carried an identifier. In particular, when
  the \<open>createSession\<close> of start-up returns and the user never switches to stateless mode,
  the handle is stored and the mode is session. Every switch to stateless mode clears
  \<open>sessionId\<close>. A switch to session mode whose \<open>createSession\<close> throws leaves \<open>sessionId\<close>
  as it was.
\<close>

theorem C6_handle_lifecycle:
  "(\<exists>s. conversation r ops = Inr s \<and>
      (sessionId s \<noteq> None \<longleftrightarrow> currentMode s = Session \<and> established r ops) \<and>
      (\<not> isl (createSession r) \<and> (\<forall>x \<in> set ops. \<not> to_stateless x) \<longrightarrow>
         sessionId s \<noteq> None \<and> currentMode s = Session)) \<and>
   (\<exists>s'. handleModeChange Stateless reply s0 = Inr s' \<and> sessionId s' = None) \<and>
   (isl (createSession reply) \<longrightarrow>
      (\<exists>s'. handleModeChange Session reply s0 = Inr s' \<and> sessionId s' = sessionId s0))"
proof (intro conjI impI)
  define b where "b = (\<not> isl (createSession r))"
  obtain s1 where i: "initSession r initial_state = Inr s1"
      and h: "sessionId s1 \<noteq> None \<longleftrightarrow> b"
      and m: "b \<longrightarrow> currentMode s1 = Session"
    by (cases "createSession r") (simp_all add: initSession_eq initial_state_def b_def)
  from run_ops_established [OF h m, of ops] obtain s where
    s: "run_ops ops s1 = Inr s"
      "sessionId s \<noteq> None \<longleftrightarrow> established_from ops s1 b"
      "established_from ops s1 b \<longrightarrow> currentMode s = Session"
    by blast
  have e: "established r ops = established_from ops s1 b"
    by (simp add: established_def i b_def)
  have c: "conversation r ops = Inr s"
    by (simp add: conversation_def i s(1))
  have "sessionId s \<noteq> None \<and> currentMode s = Session"
    if "\<not> isl (createSession r) \<and> (\<forall>x \<in> set ops. \<not> to_stateless x)"
  proof -
    from that have "established_from ops s1 b"
      by (intro established_from_stays) (simp_all add: b_def)
    with s show ?thesis by simp
  qed
  with c e s show "\<exists>s. conversation r ops = Inr s \<and>
      (sessionId s \<noteq> None \<longleftrightarrow> currentMode s = Session \<and> established r ops) \<and>
      (\<not> isl (createSession r) \<and> (\<forall>x \<in> set ops. \<not> to_stateless x) \<longrightarrow>
         sessionId s \<noteq> None \<and> currentMode s = Session)"
    by auto
next
  show "\<exists>s'. handleModeChange Stateless reply s0 = Inr s' \<and> sessionId s' = None"
    by (simp add: handleModeChange_Stateless_eq)
next
  assume "isl (createSession reply)"
  then show "\<exists>s'. handleModeChange Session reply s0 = Inr s' \<and> sessionId s' = sessionId s0"
    by (cases "createSession reply") (simp_all add: handleModeChange_Session_eq)
qed

theorem C6_handle_lifecycle_witness:
  "\<not> isl (createSession (Ok (Inr (lit ''S1'')))) \<and>
   list_all (\<lambda>x. \<not> to_stateless x)
     [TypeText (lit ''hello''),
      SubmitText (Ok (Inr \<lparr>response = lit ''Hi!'', session_id = Some (lit ''S1'')\<rparr>))] \<and>
   (\<exists>s. conversation (Ok (Inr (lit ''S1'')))
        [TypeText (lit ''hello''),
         SubmitText (Ok (Inr \<lparr>response = lit ''Hi!'', session_id = Some (lit ''S1'')\<rparr>))] = Inr s \<and>
      sessionId s \<noteq> None \<and> currentMode s = Session) \<and>
   established (Ok (Inr (lit ''S1'')))
     [TypeText (lit ''hello''),
      SubmitText (Ok (Inr \<lparr>response = lit ''Hi!'', session_id = Some (lit ''S1'')\<rparr>))] \<and>
   isl (createSession (NetworkFailure (lit ''Failed to fetch''))) \<and>
   (\<exists>s'. handleModeChange Session (NetworkFailure (lit ''Failed to fetch''))
      \<lparr>sessionId = None, currentMode = Stateless, messages = [], inputMessage = [],
       isLoading = False\<rparr> = Inr s' \<and> sessionId s' = None)"
proof -
  let ?r = "Ok (Inr (lit ''S1''))"
  let ?ops = "[TypeText (lit ''hello''),
         SubmitText (Ok (Inr \<lparr>response = lit ''Hi!'', session_id = Some (lit ''S1'')\<rparr>))]"
  let ?f = "NetworkFailure (lit ''Failed to fetch'')"
  let ?s0 = "\<lparr>sessionId = None, currentMode = Stateless, messages = [], inputMessage = [],
       isLoading = False\<rparr>"
  note w = C6_handle_lifecycle [of ?r ?ops ?f ?s0]
  have a: "\<not> isl (createSession ?r)" by (simp add: createSession_def)
  have b: "\<forall>x \<in> set ?ops. \<not> to_stateless x" by (simp add: to_stateless_def)
  have i: "isl (createSession ?f)" by (simp add: createSession_def)
  from w a b obtain s where s: "conversation ?r ?ops = Inr s"
      "sessionId s \<noteq> None \<longleftrightarrow> currentMode s = Session \<and> established ?r ?ops"
      "sessionId s \<noteq> None" "currentMode s = Session"
    by blast
  then have e: "established ?r ?ops" by blast
  from w i have "\<exists>s'. handleModeChange Session ?f ?s0 = Inr s' \<and> sessionId s' = sessionId ?s0"
    by blast
  then have h: "\<exists>s'. handleModeChange Session ?f ?s0 = Inr s' \<and> sessionId s' = None"
    by simp
  from b have l: "list_all (\<lambda>x. \<not> to_stateless x) ?ops" by (simp add: list_all_iff)
  from a l s(1,3,4) e i h show ?thesis by blast
qed

text \<open>
  C6 as stated fails, in the four ways that the amended statement accounts for.
  First, the session created at start-up gives \<open>S1\<close>; selecting session mode again with
  \<open>fetch\<close> rejecting is a session-initialization failure, and \<open>S1\<close> is still stored after
  it. Second, when the \<open>createSession\<close> of start-up fails and the response to the next
  message carries \<open>S9\<close>, the handle is stored although no initialization has succeeded.
  Third, after a successful start-up, a switch to stateless mode and a failed switch back,
  the mode is session and a session was once initialized, yet no handle is stored. Fourth,
  when the user switches to stateless mode while a message sent in session mode is in flight
  and its response carries \<open>S2\<close>, the handle is stored in stateless mode.
\<close>

theorem C6_counterexample:
  "conversation (Ok (Inr (lit ''S1'')))
     [SwitchMode Session (NetworkFailure (lit ''Failed to fetch''))] =
   Inr \<lparr>sessionId = Some (lit ''S1''), currentMode = Session,
        messages =
          [\<lparr>role = Assistant,
            content = cross_mark @ lit '' Error: '' @ lit ''Failed to initialize chat session'',
            isMarkdown = False\<rparr>],
        inputMessage = [], isLoading = False\<rparr> \<and>
   conversation (NetworkFailure (lit ''Failed to fetch''))
     [TypeText (lit ''hello''),
      SubmitText (Ok (Inr \<lparr>response = lit ''Hi!'', session_id = Some (lit ''S9'')\<rparr>))] =
   Inr \<lparr>sessionId = Some (lit ''S9''), currentMode = Session,
        messages =
          [\<lparr>role = Assistant,
            content = cross_mark @ lit '' Error: '' @ lit ''Failed to initialize chat session'',
            isMarkdown = False\<rparr>,
           \<lparr>role = User, content = lit ''hello'', isMarkdown = False\<rparr>,
           \<lparr>role = Assistant, content = lit ''Hi!'', isMarkdown = True\<rparr>],
        inputMessage = [], isLoading = False\<rparr> \<and>
   conversation (Ok (Inr (lit ''S1'')))
     [SwitchMode Stateless (NetworkFailure (lit ''Failed to fetch'')),
      SwitchMode Session (NetworkFailure (lit ''Failed to fetch''))] =
   Inr \<lparr>sessionId = None, currentMode = Session,
        messages =
          [\<lparr>role = Assistant,
            content = cross_mark @ lit '' Error: '' @ lit ''Failed to initialize chat session'',
            isMarkdown = False\<rparr>],
        inputMessage = [], isLoading = False\<rparr> \<and>
   run [CreateSettled 0 (Ok (Inr (lit ''S1''))), Typed (lit ''hello''), SubmitClicked,
        ModeClicked Stateless,
        SendSettled 0 (Ok (Inr \<lparr>response = lit ''Hi!'', session_id = Some (lit ''S2'')\<rparr>))]
     (initial_state, [CreatePending]) =
   Next (\<lparr>sessionId = Some (lit ''S2''), currentMode = Stateless,
          messages =
            [\<lparr>role = Assistant, content = stateless_text, isMarkdown = False\<rparr>,
             \<lparr>role = Assistant, content = lit ''Hi!'', isMarkdown = True\<rparr>],
          inputMessage = [], isLoading = False\<rparr>, [])"
proof (intro conjI)
  show "conversation (Ok (Inr (lit ''S1'')))
     [SwitchMode Session (NetworkFailure (lit ''Failed to fetch''))] =
   Inr \<lparr>sessionId = Some (lit ''S1''), currentMode = Session,
        messages =
          [\<lparr>role = Assistant,
            content = cross_mark @ lit '' Error: '' @ lit ''Failed to initialize chat session'',
            isMarkdown = False\<rparr>],
        inputMessage = [], isLoading = False\<rparr>"
    by (simp add: conversation_def initSession_eq handleModeChange_Session_eq createSession_def
        initial_state_def)
next
  show "conversation (NetworkFailure (lit ''Failed to fetch''))
     [TypeText (lit ''hello''),
      SubmitText (Ok (Inr \<lparr>response = lit ''Hi!'', session_id = Some (lit ''S9'')\<rparr>))] =
   Inr \<lparr>sessionId = Some (lit ''S9''), currentMode = Session,
        messages =
          [\<lparr>role = Assistant,
            content = cross_mark @ lit '' Error: '' @ lit ''Failed to initialize chat session'',
            isMarkdown = False\<rparr>,
           \<lparr>role = User, content = lit ''hello'', isMarkdown = False\<rparr>,
           \<lparr>role = Assistant, content = lit ''Hi!'', isMarkdown = True\<rparr>],
        inputMessage = [], isLoading = False\<rparr>"
    by (simp add: conversation_def initSession_def initSession_resume_def createSession_def
        showError_def initial_state_def handleChange_def handleSubmit_def handleSubmit_begin_def
        handleSubmit_resume_def handleSubmit_try_def sendMessage_def truthy_opt_def truthy_def
        trim_def isWhiteSpace_def lit_def addMessage_def Let_def)
next
  show "conversation (Ok (Inr (lit ''S1'')))
     [SwitchMode Stateless (NetworkFailure (lit ''Failed to fetch'')),
      SwitchMode Session (NetworkFailure (lit ''Failed to fetch''))] =
   Inr \<lparr>sessionId = None, currentMode = Session,
        messages =
          [\<lparr>role = Assistant,
            content = cross_mark @ lit '' Error: '' @ lit ''Failed to initialize chat session'',
            isMarkdown = False\<rparr>],
        inputMessage = [], isLoading = False\<rparr>"
    by (simp add: conversation_def initSession_eq handleModeChange_Session_eq
        handleModeChange_Stateless_eq createSession_def initial_state_def)
next
  show "run [CreateSettled 0 (Ok (Inr (lit ''S1''))), Typed (lit ''hello''), SubmitClicked,
        ModeClicked Stateless,
        SendSettled 0 (Ok (Inr \<lparr>response = lit ''Hi!'', session_id = Some (lit ''S2'')\<rparr>))]
     (initial_state, [CreatePending]) =
   Next (\<lparr>sessionId = Some (lit ''S2''), currentMode = Stateless,
          messages =
            [\<lparr>role = Assistant, content = stateless_text, isMarkdown = False\<rparr>,
             \<lparr>role = Assistant, content = lit ''Hi!'', isMarkdown = True\<rparr>],
          inputMessage = [], isLoading = False\<rparr>, [])"
    by (simp add: initSession_resume_def createSession_def
        initial_state_def handleChange_def handleSubmit_begin_def handleModeChange_begin_def
        handleModeChange_clear_def remove_nth_def
        handleSubmit_resume_def handleSubmit_try_def sendMessage_def truthy_opt_def truthy_def
        trim_def isWhiteSpace_def lit_def addMessage_def Let_def)
qed

text \<open>
  C7. For every mode and every state, also when the mode selected is the current one,
  \<open>handleModeChange\<close> first empties the transcript; what it appends afterwards is appended to
  the empty transcript. So the transcript is empty while \<open>createSession\<close> is awaited, holds
  the stateless notice alone after a switch to stateless mode, and holds exactly one entry
  (welcome, notice or error) when the handler has completed.
\<close>

theorem C7_switch_clears_transcript:
  "messages (handleModeChange_clear md s) = [] \<and>
   messages (fst (handleModeChange_begin md s)) =
     (if md = Session then []
      else [\<lparr>role = Assistant, content = stateless_text, isMarkdown = False\<rparr>]) \<and>
   (\<exists>s' e. handleModeChange md reply s = Inr s' \<and> currentMode s' = md \<and>
      messages s' = [e] \<and>
      e \<in> {\<lparr>role = Assistant, content = welcome_text, isMarkdown = False\<rparr>,
           \<lparr>role = Assistant, content = stateless_text, isMarkdown = False\<rparr>,
           \<lparr>role = Assistant,
            content = cross_mark @ lit '' Error: '' @ lit ''Failed to initialize chat session'',
            isMarkdown = False\<rparr>})"
  by (cases md)
    (simp_all add: handleModeChange_clear_def handleModeChange_begin_def addMessage_def
      handleModeChange_Session_eq handleModeChange_Stateless_eq split: sum.split)

theorem C7_switch_clears_transcript_witness:
  "messages (handleModeChange_clear Session
      \<lparr>sessionId = Some (lit ''S1''), currentMode = Session,
       messages = [\<lparr>role = User, content = lit ''hello'', isMarkdown = False\<rparr>],
       inputMessage = [], isLoading = False\<rparr>) = [] \<and>
   messages (fst (handleModeChange_begin Session
      \<lparr>sessionId = Some (lit ''S1''), currentMode = Session,
       messages = [\<lparr>role = User, content = lit ''hello'', isMarkdown = False\<rparr>],
       inputMessage = [], isLoading = False\<rparr>)) = [] \<and>
   (\<exists>s' e. handleModeChange Session (Ok (Inr (lit ''S2'')))
      \<lparr>sessionId = Some (lit ''S1''), currentMode = Session,
       messages = [\<lparr>role = User, content = lit ''hello'', isMarkdown = False\<rparr>],
       inputMessage = [], isLoading = False\<rparr> = Inr s' \<and> messages s' = [e])"
  using C7_switch_clears_transcript [of Session
      "\<lparr>sessionId = Some (lit ''S1''), currentMode = Session,
       messages = [\<lparr>role = User, content = lit ''hello'', isMarkdown = False\<rparr>],
       inputMessage = [], isLoading = False\<rparr>" "Ok (Inr (lit ''S2''))"]
  by auto

text \<open>
  C8. \<open>handleModeChange\<close> to stateless mode sets \<open>sessionId\<close> to null and leaves a
  transcript that consists of the stateless notice alone; nothing else of the state changes
  but the mode.
\<close>

theorem C8_switch_to_stateless:
  "handleModeChange Stateless reply s =
     Inr (s\<lparr>sessionId := None, currentMode := Stateless,
            messages := [\<lparr>role = Assistant, content = stateless_text, isMarkdown = False\<rparr>]\<rparr>)"
  by (rule handleModeChange_Stateless_eq)

theorem C8_switch_to_stateless_witness:
  "handleModeChange Stateless (NetworkFailure [])
     \<lparr>sessionId = Some (lit ''S1''), currentMode = Session,
      messages = [\<lparr>role = User, content = lit ''hello'', isMarkdown = False\<rparr>],
      inputMessage = lit ''draft'', isLoading = False\<rparr> =
   Inr \<lparr>sessionId = None, currentMode = Stateless,
        messages = [\<lparr>role = Assistant, content = stateless_text, isMarkdown = False\<rparr>],
        inputMessage = lit ''draft'', isLoading = False\<rparr>"
  using C8_switch_to_stateless [of "NetworkFailure []"
      "\<lparr>sessionId = Some (lit ''S1''), currentMode = Session,
      messages = [\<lparr>role = User, content = lit ''hello'', isMarkdown = False\<rparr>],
      inputMessage = lit ''draft'', isLoading = False\<rparr>"]
  by simp

text \<open>
  C9. In session mode with no identifier stored, a failing \<open>initSession\<close> leaves
  \<open>sessionId\<close> null, and the next \<open>handleSubmit\<close> still calls \<open>sendMessage\<close> in session
  mode with the null identifier: the request goes to the session endpoint, where the
  template renders the absent identifier as \<open>null\<close>, and not to \<open>/chat/stateless\<close>.
\<close>

theorem C9_submit_after_failed_init:
  assumes "currentMode s0 = Session" and "sessionId s0 = None" and "\<not> isLoading s0"
    and "createSession reply = Inl e" and "trim v \<noteq> []"
  shows "\<exists>s1 s2 c. initSession reply s0 = Inr s1 \<and> sessionId s1 = None \<and>
     handleSubmit_begin (handleChange v s1) = Some (s2, c) \<and>
     call_sessionId c = None \<and> call_mode c = Session \<and>
     dispatched c = \<lparr>endpoint = lit ''/chat/session/null'', body_message = Some (trim v)\<rparr> \<and>
     endpoint (dispatched c) \<noteq> lit ''/chat/stateless''"
proof -
  define s1 where "s1 = showError (lit ''Failed to initialize chat session'') s0"
  have i: "initSession reply s0 = Inr s1"
    using assms(4) by (simp add: initSession_def initSession_resume_def s1_def)
  have p: "sessionId s1 = None" "currentMode s1 = Session" "\<not> isLoading s1"
    using assms by (simp_all add: s1_def showError_def addMessage_def)
  have "trim (inputMessage (handleChange v s1)) \<noteq> []" "\<not> isLoading (handleChange v s1)"
    using assms(5) p by (simp_all add: handleChange_def)
  from handleSubmit_begin_Some [OF this] i p show ?thesis
    by (simp add: handleChange_def dispatched_def sendMessage_request_def interpolate_def lit_def)
qed

theorem C9_submit_after_failed_init_witness:
  "currentMode initial_state = Session \<and> sessionId initial_state = None \<and>
   \<not> isLoading initial_state \<and>
   createSession (NotOk (Inr Undefined)) = Inl (Error (lit ''Failed to create session'')) \<and>
   trim (lit ''hello'') \<noteq> [] \<and>
   (\<exists>s1 s2 c. initSession (NotOk (Inr Undefined)) initial_state = Inr s1 \<and> sessionId s1 = None \<and>
     handleSubmit_begin (handleChange (lit ''hello'') s1) = Some (s2, c) \<and>
     call_sessionId c = None \<and> call_mode c = Session \<and>
     dispatched c =
       \<lparr>endpoint = lit ''/chat/session/null'', body_message = Some (trim (lit ''hello''))\<rparr> \<and>
     endpoint (dispatched c) \<noteq> lit ''/chat/stateless'')"
proof -
  have a: "currentMode initial_state = Session" "sessionId initial_state = None"
      "\<not> isLoading initial_state"
    by (simp_all add: initial_state_def)
  have b: "createSession (NotOk (Inr Undefined)) = Inl (Error (lit ''Failed to create session''))"
    by (simp add: createSession_def)
  have c: "trim (lit ''hello'') \<noteq> []"
    by (simp add: trim_def lit_def isWhiteSpace_def)
  from C9_submit_after_failed_init [OF a b c] a b c show ?thesis by blast
qed

text \<open>
  C10. A click on a mode button is handled while a send is in flight (\<open>isLoading\<close> true):
  it switches the mode and clears the transcript. When the send settles afterwards, its
  assistant entry (response or error) is appended to the transcript of after the switch,
  which then holds that entry of the earlier conversation.
\<close>

theorem C10_switch_during_submit:
  assumes "trim (inputMessage s) \<noteq> []" and "\<not> isLoading s"
  shows "\<exists>s1 s3.
     run [SubmitClicked] (s, ps) =
       Next (s1, ps @ [SendPending \<lparr>call_sessionId = sessionId s,
                         call_message = trim (inputMessage s), call_mode = currentMode s\<rparr>]) \<and>
     isLoading s1 \<and>
     run [SubmitClicked, ModeClicked md, SendSettled (length ps) reply] (s, ps) =
       Next (s3, ps @ (if md = Session then [CreatePending] else [])) \<and>
     currentMode s3 = md \<and>
     messages s3 =
       (if md = Session then []
        else [\<lparr>role = Assistant, content = stateless_text, isMarkdown = False\<rparr>]) @
       [(case sendMessage reply of
           Inr resp \<Rightarrow> \<lparr>role = Assistant, content = response resp, isMarkdown = True\<rparr>
         | Inl e \<Rightarrow>
             \<lparr>role = Assistant,
              content = cross_mark @ lit '' Error: '' @
                (case e of Error m \<Rightarrow> m | NonError \<Rightarrow> lit ''Failed to send message''),
              isMarkdown = False\<rparr>)]"
  by (cases md)
    (simp_all add: handleSubmit_begin_Some [OF assms] handleModeChange_begin_def
      handleModeChange_clear_def addMessage_def handleSubmit_resume_eq nth_append
      remove_nth_def split: sum.split)

theorem C10_switch_during_submit_witness:
  "trim (inputMessage
      \<lparr>sessionId = Some (lit ''S1''), currentMode = Session, messages = [],
       inputMessage = lit ''hello'', isLoading = False\<rparr>) \<noteq> [] \<and>
   (\<exists>s3. run [SubmitClicked, ModeClicked Stateless,
              SendSettled 0 (Ok (Inr \<lparr>response = lit ''Hi!'', session_id = None\<rparr>))]
        (\<lparr>sessionId = Some (lit ''S1''), currentMode = Session, messages = [],
          inputMessage = lit ''hello'', isLoading = False\<rparr>, []) = Next (s3, []) \<and>
      currentMode s3 = Stateless \<and>
      messages s3 =
        [\<lparr>role = Assistant, content = stateless_text, isMarkdown = False\<rparr>,
         \<lparr>role = Assistant, content = lit ''Hi!'', isMarkdown = True\<rparr>])"
proof -
  let ?s = "\<lparr>sessionId = Some (lit ''S1''), currentMode = Session, messages = [],
       inputMessage = lit ''hello'', isLoading = False\<rparr>"
  let ?reply = "Ok (Inr \<lparr>response = lit ''Hi!'', session_id = None\<rparr>)"
  have a: "trim (inputMessage ?s) \<noteq> []" "\<not> isLoading ?s"
    by (simp_all add: trim_def lit_def isWhiteSpace_def)
  have c: "sendMessage ?reply = Inr \<lparr>response = lit ''Hi!'', session_id = None\<rparr>"
    by (simp add: sendMessage_def)
  from C10_switch_during_submit [OF a, of "[]" Stateless ?reply] a(1)
  show ?thesis unfolding c by auto
qed

end
